theory Spec2Isabelle
  imports Main
begin

section \<open>Errors and promises\<close>

text \<open>
  The error classes of the package (\<^verbatim>\<open>AlreadySpawnedError\<close>, \<^verbatim>\<open>EmptyCommandError\<close>,
  \<^verbatim>\<open>NotYetSpawnedError\<close>, \<^verbatim>\<open>KilledWithSignalError\<close> with its public \<^verbatim>\<open>signal\<close>,
  \<^verbatim>\<open>ExitedWithExitCodeError\<close> with its public \<^verbatim>\<open>code\<close>) and the plain JavaScript
  \<^verbatim>\<open>Error\<close> with its message, which is also what the child process hands to its
  \<^verbatim>\<open>error\<close> listeners. An exit code is a JavaScript \<^verbatim>\<open>number\<close> holding an integer and
  is modelled as \<open>int\<close>; a signal name (\<^verbatim>\<open>NodeJS.Signals\<close>) is a string.
\<close>

datatype error =
    AlreadySpawnedError
  | EmptyCommandError
  | NotYetSpawnedError
  | KilledWithSignalError string
  | ExitedWithExitCodeError int
  | Error string

text \<open>
  A \<^verbatim>\<open>Promise<void>\<close> is pending, fulfilled or rejected with a reason. The functions
  \<^verbatim>\<open>resolve\<close> and \<^verbatim>\<open>reject\<close> of its executor settle a pending promise and do nothing
  to a settled one.
\<close>

datatype promise = Pending | Fulfilled | Rejected error

fun resolve :: "promise \<Rightarrow> promise" where
  "resolve Pending = Fulfilled"
| "resolve p = p"

fun reject :: "error \<Rightarrow> promise \<Rightarrow> promise" where
  "reject e Pending = Rejected e"
| "reject e p = p"

section \<open>The tracker: class Spawned\<close>

text \<open>
  The class is embedded from the documented revision of \<^verbatim>\<open>Spawned.ts\<close>
  (\<^verbatim>\<open>src/unnamed/part_005\<close>), the one whose \<^verbatim>\<open>createSpawnPromise\<close> tests the pid and
  whose promises are \<^verbatim>\<open>Promise<void>\<close>.

  Of the \<^verbatim>\<open>ChildProcess\<close> handle the class reads \<^verbatim>\<open>pid\<close> (undefined until the
  process has an identity) and calls \<^verbatim>\<open>kill\<close>; the handle records the signals it was
  sent.
\<close>

record ChildProcess =
  pid :: "nat option"
  sent :: "string list"

text \<open>
  The internal \<^verbatim>\<open>eventemitter3\<close> emitter has the events \<^verbatim>\<open>spawn\<close>, \<^verbatim>\<open>error\<close> and
  \<^verbatim>\<open>exit\<close>. Its listeners are the closures of the two promise executors:
  \<^verbatim>\<open>onSpawn\<close> and \<^verbatim>\<open>onError\<close> of \<^verbatim>\<open>createSpawnPromise\<close>, \<^verbatim>\<open>onExit\<close> and \<^verbatim>\<open>onError\<close> of
  \<^verbatim>\<open>createExitPromise\<close>. All of them are registered with \<^verbatim>\<open>once\<close>, in the order kept
  by the lists.
\<close>

datatype spawn_listener = SpawnPromise_onSpawn
datatype error_listener = SpawnPromise_onError | ExitPromise_onError
datatype exit_listener = ExitPromise_onExit

record EventEmitter =
  on_spawn :: "spawn_listener list"
  on_error :: "error_listener list"
  on_exit :: "exit_listener list"

text \<open>
  The fields of \<^verbatim>\<open>Spawned\<close>. A leading underscore is not an Isabelle name, so
  \<^verbatim>\<open>_spawned\<close>, \<^verbatim>\<open>_done\<close>, \<^verbatim>\<open>_exitCode\<close>, \<^verbatim>\<open>_signal\<close> and \<^verbatim>\<open>_childProcess\<close> carry the
  prefix \<open>u_\<close>. \<^verbatim>\<open>undefined\<close> is \<open>None\<close>.
\<close>

record Spawned =
  u_childProcess :: ChildProcess
  u_spawned :: bool
  u_done :: bool
  u_exitCode :: "int option"
  u_signal :: "string option"
  spawnPromise :: promise
  exitPromise :: promise
  eventEmitter :: EventEmitter

subsection \<open>The listeners of the two promises\<close>

text \<open>
  \<^verbatim>\<open>removeListener(event, fn, undefined, true)\<close> drops every once-registration of
  \<^verbatim>\<open>fn\<close> for the event.
\<close>

definition spawnPromise_cleanup :: "Spawned \<Rightarrow> Spawned" where
  "spawnPromise_cleanup t =
     t\<lparr>eventEmitter := (eventEmitter t)
         \<lparr>on_error := removeAll SpawnPromise_onError (on_error (eventEmitter t)),
          on_spawn := removeAll SpawnPromise_onSpawn (on_spawn (eventEmitter t))\<rparr>\<rparr>"

definition exitPromise_cleanup :: "Spawned \<Rightarrow> Spawned" where
  "exitPromise_cleanup t =
     t\<lparr>eventEmitter := (eventEmitter t)
         \<lparr>on_error := removeAll ExitPromise_onError (on_error (eventEmitter t)),
          on_exit := removeAll ExitPromise_onExit (on_exit (eventEmitter t))\<rparr>\<rparr>"

text \<open>\<^verbatim>\<open>onSpawn\<close> of \<^verbatim>\<open>createSpawnPromise\<close>: cleanup, then resolve.\<close>

fun call_spawn_listener :: "spawn_listener \<Rightarrow> Spawned \<Rightarrow> Spawned" where
  "call_spawn_listener SpawnPromise_onSpawn t =
     (let t1 = spawnPromise_cleanup t in t1\<lparr>spawnPromise := resolve (spawnPromise t1)\<rparr>)"

text \<open>The two \<^verbatim>\<open>onError\<close> closures: cleanup, then reject with the error.\<close>

fun call_error_listener :: "error_listener \<Rightarrow> error \<Rightarrow> Spawned \<Rightarrow> Spawned" where
  "call_error_listener SpawnPromise_onError e t =
     (let t1 = spawnPromise_cleanup t in t1\<lparr>spawnPromise := reject e (spawnPromise t1)\<rparr>)"
| "call_error_listener ExitPromise_onError e t =
     (let t1 = exitPromise_cleanup t in t1\<lparr>exitPromise := reject e (exitPromise t1)\<rparr>)"

text \<open>
  \<^verbatim>\<open>onExit\<close> of \<^verbatim>\<open>createExitPromise\<close>: cleanup, then the four-way decision, in the
  order of the source: \<^verbatim>\<open>signal !== null\<close>, \<^verbatim>\<open>code === null\<close>, \<^verbatim>\<open>code === 0\<close>, else.
\<close>

fun call_exit_listener ::
  "exit_listener \<Rightarrow> int option \<Rightarrow> string option \<Rightarrow> Spawned \<Rightarrow> Spawned" where
  "call_exit_listener ExitPromise_onExit code signal t =
     (let t1 = exitPromise_cleanup t in
      case signal of
        Some s \<Rightarrow> t1\<lparr>exitPromise := reject (KilledWithSignalError s) (exitPromise t1)\<rparr>
      | None \<Rightarrow>
         (case code of
            None \<Rightarrow>
              t1\<lparr>exitPromise :=
                   reject (Error ''Both code and signal are null.'') (exitPromise t1)\<rparr>
          | Some c \<Rightarrow>
              if c = 0 then t1\<lparr>exitPromise := resolve (exitPromise t1)\<rparr>
              else t1\<lparr>exitPromise := reject (ExitedWithExitCodeError c) (exitPromise t1)\<rparr>))"

subsection \<open>Emitting on the internal emitter\<close>

text \<open>
  \<^verbatim>\<open>emit\<close> of eventemitter3 walks the listeners registered when it starts; a listener
  registered with \<^verbatim>\<open>once\<close> is removed just before it is called.
\<close>

definition emit_spawn :: "Spawned \<Rightarrow> Spawned" where
  "emit_spawn t =
     fold (\<lambda>l t'. call_spawn_listener l
             (t'\<lparr>eventEmitter := (eventEmitter t')
                   \<lparr>on_spawn := removeAll l (on_spawn (eventEmitter t'))\<rparr>\<rparr>))
          (on_spawn (eventEmitter t)) t"

definition emit_error :: "error \<Rightarrow> Spawned \<Rightarrow> Spawned" where
  "emit_error e t =
     fold (\<lambda>l t'. call_error_listener l e
             (t'\<lparr>eventEmitter := (eventEmitter t')
                   \<lparr>on_error := removeAll l (on_error (eventEmitter t'))\<rparr>\<rparr>))
          (on_error (eventEmitter t)) t"

definition emit_exit :: "int option \<Rightarrow> string option \<Rightarrow> Spawned \<Rightarrow> Spawned" where
  "emit_exit code signal t =
     fold (\<lambda>l t'. call_exit_listener l code signal
             (t'\<lparr>eventEmitter := (eventEmitter t')
                   \<lparr>on_exit := removeAll l (on_exit (eventEmitter t'))\<rparr>\<rparr>))
          (on_exit (eventEmitter t)) t"

subsection \<open>The handlers subscribed to the child process\<close>

definition onSpawn :: "Spawned \<Rightarrow> Spawned" where
  "onSpawn t = emit_spawn (t\<lparr>u_spawned := True\<rparr>)"

definition onError :: "error \<Rightarrow> Spawned \<Rightarrow> Spawned" where
  "onError e t = emit_error e t"

text \<open>
  \<^verbatim>\<open>onCloseOrExit\<close>: \<^verbatim>\<open>if (signal)\<close> is JavaScript truthiness, false for \<^verbatim>\<open>null\<close> and
  for the empty string.
\<close>

definition onCloseOrExit :: "int option \<Rightarrow> string option \<Rightarrow> Spawned \<Rightarrow> Spawned" where
  "onCloseOrExit code signal t =
     (if u_done t then t
      else
        let t1 = t\<lparr>u_done := True\<rparr>;
            t2 = (case code of None \<Rightarrow> t1 | Some c \<Rightarrow> t1\<lparr>u_exitCode := Some c\<rparr>);
            t3 = (case signal of
                    None \<Rightarrow> t2
                  | Some s \<Rightarrow> if s = [] then t2 else t2\<lparr>u_signal := Some s\<rparr>)
        in emit_exit code signal t3)"

subsection \<open>Construction\<close>

text \<open>
  \<^verbatim>\<open>createSpawnPromise\<close> returns \<^verbatim>\<open>Promise.resolve()\<close> and registers nothing when the
  handle already has a pid; otherwise it registers \<^verbatim>\<open>onError\<close>, then \<^verbatim>\<open>onSpawn\<close>.
  \<^verbatim>\<open>createExitPromise\<close> always registers \<^verbatim>\<open>onError\<close>, then \<^verbatim>\<open>onExit\<close>. Both work on the
  object under construction and give the promise together with the emitter as they
  leave it.
\<close>

definition createSpawnPromise :: "Spawned \<Rightarrow> promise \<times> EventEmitter" where
  "createSpawnPromise t =
     (if pid (u_childProcess t) \<noteq> None then (Fulfilled, eventEmitter t)
      else (Pending,
            (eventEmitter t)
              \<lparr>on_error := on_error (eventEmitter t) @ [SpawnPromise_onError],
               on_spawn := on_spawn (eventEmitter t) @ [SpawnPromise_onSpawn]\<rparr>))"

definition createExitPromise :: "Spawned \<Rightarrow> promise \<times> EventEmitter" where
  "createExitPromise t =
     (Pending,
      (eventEmitter t)
        \<lparr>on_error := on_error (eventEmitter t) @ [ExitPromise_onError],
         on_exit := on_exit (eventEmitter t) @ [ExitPromise_onExit]\<rparr>)"

text \<open>
  The constructor: the field initialisers, then the two promises in the order of
  the source. The four \<^verbatim>\<open>childProcess.on\<close> subscriptions are \<open>deliver\<close> below.
\<close>

definition Spawned_new :: "ChildProcess \<Rightarrow> Spawned" where
  "Spawned_new childProcess =
     (let t0 = \<lparr>u_childProcess = childProcess, u_spawned = False, u_done = False,
                u_exitCode = None, u_signal = None,
                spawnPromise = Pending, exitPromise = Pending,
                eventEmitter = \<lparr>on_spawn = [], on_error = [], on_exit = []\<rparr>\<rparr>;
          (sp, em1) = createSpawnPromise t0;
          t1 = t0\<lparr>spawnPromise := sp, eventEmitter := em1\<rparr>;
          (ep, em2) = createExitPromise t1
      in t1\<lparr>exitPromise := ep, eventEmitter := em2\<rparr>)"

text \<open>
  The notifications of the handle and the handler each one reaches:
  \<^verbatim>\<open>spawn\<close> \<open>\<rightarrow>\<close> \<^verbatim>\<open>onSpawn\<close>, \<^verbatim>\<open>error\<close> \<open>\<rightarrow>\<close> \<^verbatim>\<open>onError\<close>, \<^verbatim>\<open>close\<close> and \<^verbatim>\<open>exit\<close> \<open>\<rightarrow>\<close>
  \<^verbatim>\<open>onCloseOrExit\<close>. The host delivers them one at a time.
\<close>

datatype notification =
    NSpawn
  | NError error
  | NClose "int option" "string option"
  | NExit "int option" "string option"

fun deliver :: "notification \<Rightarrow> Spawned \<Rightarrow> Spawned" where
  "deliver NSpawn t = onSpawn t"
| "deliver (NError e) t = onError e t"
| "deliver (NClose code signal) t = onCloseOrExit code signal t"
| "deliver (NExit code signal) t = onCloseOrExit code signal t"

definition deliver_all :: "notification list \<Rightarrow> Spawned \<Rightarrow> Spawned" where
  "deliver_all ns t = fold deliver ns t"

subsection \<open>Queries, kill and the two waits\<close>

definition Spawned_hasSpawned :: "Spawned \<Rightarrow> bool" where
  "Spawned_hasSpawned t = u_spawned t"

definition Spawned_isDone :: "Spawned \<Rightarrow> bool" where
  "Spawned_isDone t = u_done t"

definition Spawned_wasKilled :: "Spawned \<Rightarrow> bool" where
  "Spawned_wasKilled t = (u_signal t \<noteq> None)"

definition Spawned_hasExitedSuccessfully :: "Spawned \<Rightarrow> bool" where
  "Spawned_hasExitedSuccessfully t = (\<not> Spawned_wasKilled t \<and> u_exitCode t = Some 0)"

definition Spawned_hasExitedWithError :: "Spawned \<Rightarrow> bool" where
  "Spawned_hasExitedWithError t = (\<not> Spawned_wasKilled t \<and> u_exitCode t \<noteq> Some 0)"

definition Spawned_signal :: "Spawned \<Rightarrow> string option" where
  "Spawned_signal t = u_signal t"

definition Spawned_exitCode :: "Spawned \<Rightarrow> int option" where
  "Spawned_exitCode t = u_exitCode t"

definition Spawned_childProcess :: "Spawned \<Rightarrow> ChildProcess" where
  "Spawned_childProcess t = u_childProcess t"

text \<open>\<^verbatim>\<open>kill(signal = "SIGINT")\<close>: an omitted argument is \<open>None\<close>.\<close>

definition Spawned_kill :: "string option \<Rightarrow> Spawned \<Rightarrow> Spawned" where
  "Spawned_kill signal t =
     (let s = (case signal of None \<Rightarrow> ''SIGINT'' | Some s' \<Rightarrow> s') in
      t\<lparr>u_childProcess := (u_childProcess t)\<lparr>sent := sent (u_childProcess t) @ [s]\<rparr>\<rparr>)"

definition Spawned_waitForSpawn :: "Spawned \<Rightarrow> promise" where
  "Spawned_waitForSpawn t = spawnPromise t"

definition Spawned_waitForExit :: "Spawned \<Rightarrow> promise" where
  "Spawned_waitForExit t = exitPromise t"

section \<open>The coordinator: class Spawnable\<close>

text \<open>
  The class is embedded from the documented revision of \<^verbatim>\<open>Spawnable.ts\<close>
  (\<^verbatim>\<open>src/unnamed/part_003\<close>), the one that throws \<^verbatim>\<open>EmptyCommandError\<close>.

  \<^verbatim>\<open>command\<close> and \<^verbatim>\<open>options\<close> are read-only; \<^verbatim>\<open>spawned\<close> is the tracker, undefined
  until \<^verbatim>\<open>spawn()\<close> has created it. The options bag is opaque (\<open>'o\<close>).
\<close>

record 'o Spawnable =
  command :: "string list"
  options :: "'o option"
  spawned :: "Spawned option"

definition Spawnable_new :: "string list \<Rightarrow> 'o option \<Rightarrow> 'o Spawnable" where
  "Spawnable_new cmd opts = \<lparr>command = cmd, options = opts, spawned = None\<rparr>"

text \<open>
  The creation primitive is \<^verbatim>\<open>spawn\<close> of \<^verbatim>\<open>node:child_process\<close>, which is not code of
  the package: it is a parameter. A call is logged with its arguments (the third is
  \<open>None\<close> for the two-argument call); the primitive may see the earlier calls, and
  it either throws or returns a handle.
\<close>

type_synonym 'o spawn_call = "string \<times> string list \<times> 'o option"

type_synonym 'o primitive =
  "'o spawn_call list \<Rightarrow> string \<Rightarrow> string list \<Rightarrow> 'o option \<Rightarrow> error + ChildProcess"

text \<open>
  An \<^verbatim>\<open>async\<close> method gives \<open>Inl e\<close> when its body throws \<open>e\<close> before its
  \<^verbatim>\<open>await\<close> (the promise it returns is rejected with \<open>e\<close>), and \<open>Inr p\<close> when it
  reaches the \<^verbatim>\<open>await\<close> of a promise of the tracker, \<open>p\<close> being that promise as it is
  then; the method's own promise settles as the tracker's does.

  \<^verbatim>\<open>spawn()\<close>: the already-spawned guard, then \<^verbatim>\<open>const [first, ...rest] = this.command\<close>
  and \<^verbatim>\<open>if (!first)\<close>, true for a missing first element and for the empty string, then
  the primitive, then \<^verbatim>\<open>new Spawned(childProcess)\<close> and the \<^verbatim>\<open>await\<close>.
\<close>

definition Spawnable_spawn ::
  "'o primitive \<Rightarrow> 'o Spawnable \<times> 'o spawn_call list \<Rightarrow>
     (error + promise) \<times> 'o Spawnable \<times> 'o spawn_call list" where
  "Spawnable_spawn create s =
     (case s of (c, calls) \<Rightarrow>
        if spawned c \<noteq> None then (Inl AlreadySpawnedError, c, calls)
        else
          (case command c of
             [] \<Rightarrow> (Inl EmptyCommandError, c, calls)
           | first # rest \<Rightarrow>
               if first = [] then (Inl EmptyCommandError, c, calls)
               else
                 (case create calls first rest (options c) of
                    Inl e \<Rightarrow> (Inl e, c, calls @ [(first, rest, options c)])
                  | Inr childProcess \<Rightarrow>
                      (let t = Spawned_new childProcess in
                       (Inr (Spawned_waitForSpawn t), c\<lparr>spawned := Some t\<rparr>,
                        calls @ [(first, rest, options c)])))))"

text \<open>
  The queries: \<^verbatim>\<open>!!this.spawned?.q()\<close> is \<^verbatim>\<open>false\<close> without a tracker,
  \<^verbatim>\<open>this.spawned?.q()\<close> is \<^verbatim>\<open>undefined\<close>. None of them has a throwing path.
\<close>

definition Spawnable_hasSpawned :: "'o Spawnable \<Rightarrow> bool" where
  "Spawnable_hasSpawned c =
     (case spawned c of None \<Rightarrow> False | Some t \<Rightarrow> Spawned_hasSpawned t)"

definition Spawnable_isDone :: "'o Spawnable \<Rightarrow> bool" where
  "Spawnable_isDone c =
     (case spawned c of None \<Rightarrow> False | Some t \<Rightarrow> Spawned_isDone t)"

definition Spawnable_wasKilled :: "'o Spawnable \<Rightarrow> bool" where
  "Spawnable_wasKilled c =
     (case spawned c of None \<Rightarrow> False | Some t \<Rightarrow> Spawned_wasKilled t)"

definition Spawnable_hasExitedSuccessfully :: "'o Spawnable \<Rightarrow> bool" where
  "Spawnable_hasExitedSuccessfully c =
     (case spawned c of None \<Rightarrow> False | Some t \<Rightarrow> Spawned_hasExitedSuccessfully t)"

definition Spawnable_hasExitedWithError :: "'o Spawnable \<Rightarrow> bool" where
  "Spawnable_hasExitedWithError c =
     (case spawned c of None \<Rightarrow> False | Some t \<Rightarrow> Spawned_hasExitedWithError t)"

definition Spawnable_signal :: "'o Spawnable \<Rightarrow> string option" where
  "Spawnable_signal c =
     (case spawned c of None \<Rightarrow> None | Some t \<Rightarrow> Spawned_signal t)"

definition Spawnable_exitCode :: "'o Spawnable \<Rightarrow> int option" where
  "Spawnable_exitCode c =
     (case spawned c of None \<Rightarrow> None | Some t \<Rightarrow> Spawned_exitCode t)"

definition Spawnable_childProcess :: "'o Spawnable \<Rightarrow> ChildProcess option" where
  "Spawnable_childProcess c =
     (case spawned c of None \<Rightarrow> None | Some t \<Rightarrow> Some (Spawned_childProcess t))"

text \<open>
  \<^verbatim>\<open>kill\<close> throws without a tracker; \<^verbatim>\<open>waitForSpawn\<close> and \<^verbatim>\<open>waitForExit\<close> are
  \<^verbatim>\<open>async\<close> and throw in their body.
\<close>

definition Spawnable_kill :: "string option \<Rightarrow> 'o Spawnable \<Rightarrow> error + 'o Spawnable" where
  "Spawnable_kill signal c =
     (case spawned c of
        None \<Rightarrow> Inl NotYetSpawnedError
      | Some t \<Rightarrow> Inr (c\<lparr>spawned := Some (Spawned_kill signal t)\<rparr>))"

definition Spawnable_waitForSpawn :: "'o Spawnable \<Rightarrow> error + promise" where
  "Spawnable_waitForSpawn c =
     (case spawned c of
        None \<Rightarrow> Inl NotYetSpawnedError
      | Some t \<Rightarrow> Inr (Spawned_waitForSpawn t))"

definition Spawnable_waitForExit :: "'o Spawnable \<Rightarrow> error + promise" where
  "Spawnable_waitForExit c =
     (case spawned c of
        None \<Rightarrow> Inl NotYetSpawnedError
      | Some t \<Rightarrow> Inr (Spawned_waitForExit t))"

subsection \<open>What can happen to a coordinator\<close>

text \<open>
  Between two observations a caller may call \<^verbatim>\<open>spawn()\<close> or \<^verbatim>\<open>kill\<close>, and the handle
  held by the tracker may emit a notification. The queries and the two waits read
  only. A call that fails leaves the state as the method left it.
\<close>

datatype step = CallSpawn | CallKill "string option" | Notify notification

fun do_step ::
  "'o primitive \<Rightarrow> step \<Rightarrow> 'o Spawnable \<times> 'o spawn_call list \<Rightarrow>
     'o Spawnable \<times> 'o spawn_call list" where
  "do_step create CallSpawn s = snd (Spawnable_spawn create s)"
| "do_step create (CallKill signal) (c, calls) =
     (case Spawnable_kill signal c of Inl e \<Rightarrow> (c, calls) | Inr c' \<Rightarrow> (c', calls))"
| "do_step create (Notify n) (c, calls) =
     (c\<lparr>spawned := map_option (deliver n) (spawned c)\<rparr>, calls)"

definition do_steps ::
  "'o primitive \<Rightarrow> step list \<Rightarrow> 'o Spawnable \<times> 'o spawn_call list \<Rightarrow>
     'o Spawnable \<times> 'o spawn_call list" where
  "do_steps create steps s = fold (do_step create) steps s"

text \<open>Concrete handles and primitives for the examples.\<close>

definition pending_handle :: ChildProcess where
  "pending_handle = \<lparr>pid = None, sent = []\<rparr>"

definition live_handle :: ChildProcess where
  "live_handle = \<lparr>pid = Some 4711, sent = []\<rparr>"

definition create_live :: "unit primitive" where
  "create_live calls file args opts = Inr live_handle"

definition create_pending :: "unit primitive" where
  "create_pending calls file args opts = Inr pending_handle"

section \<open>What holds of every tracker that can arise\<close>

text \<open>
  The trackers that can arise are \<open>deliver_all ns (Spawned_new h)\<close>. In each of them
  the \<^verbatim>\<open>exit\<close> listener is registered exactly while the exit promise is pending, a
  tracker that is done has a settled exit promise, and one that is not done has
  recorded neither a code nor a signal.
\<close>

definition tracker_inv :: "Spawned \<Rightarrow> bool" where
  "tracker_inv t \<longleftrightarrow>
     on_exit (eventEmitter t) = (if exitPromise t = Pending then [ExitPromise_onExit] else []) \<and>
     (u_done t \<longrightarrow> exitPromise t \<noteq> Pending) \<and>
     (\<not> u_done t \<longrightarrow> u_exitCode t = None \<and> u_signal t = None)"

section \<open>Folds, promises and frames\<close>

lemma fold_invariant:
  assumes "P s" and "\<And>x s'. P s' \<Longrightarrow> P (f x s')"
  shows "P (fold f xs s)"
  using assms by (induction xs arbitrary: s) auto

lemma fold_frame:
  assumes "\<And>x s'. g (f x s') = g s'"
  shows "g (fold f xs s) = g s"
  using assms by (induction xs arbitrary: s) auto

lemma resolve_settled: "p \<noteq> Pending \<Longrightarrow> resolve p = p"
  by (cases p) auto

lemma reject_settled: "p \<noteq> Pending \<Longrightarrow> reject e p = p"
  by (cases p) auto

subsection \<open>Evaluation on concrete trackers\<close>

lemmas tracker_eval =
  deliver_all_def onSpawn_def onError_def onCloseOrExit_def emit_spawn_def emit_error_def
  emit_exit_def Spawned_new_def createSpawnPromise_def createExitPromise_def
  spawnPromise_cleanup_def exitPromise_cleanup_def pending_handle_def live_handle_def Let_def
  Spawned_hasSpawned_def Spawned_isDone_def Spawned_wasKilled_def
  Spawned_hasExitedSuccessfully_def Spawned_hasExitedWithError_def Spawned_signal_def
  Spawned_exitCode_def Spawned_childProcess_def Spawned_waitForSpawn_def
  Spawned_waitForExit_def

lemma Spawned_new_pending_handle:
  "Spawned_new pending_handle =
     \<lparr>u_childProcess = pending_handle, u_spawned = False, u_done = False,
      u_exitCode = None, u_signal = None, spawnPromise = Pending, exitPromise = Pending,
      eventEmitter = \<lparr>on_spawn = [SpawnPromise_onSpawn],
                      on_error = [SpawnPromise_onError, ExitPromise_onError],
                      on_exit = [ExitPromise_onExit]\<rparr>\<rparr>"
  by (simp add: Spawned_new_def createSpawnPromise_def createExitPromise_def Let_def
        pending_handle_def)

lemma Spawned_new_live_handle:
  "Spawned_new live_handle =
     \<lparr>u_childProcess = live_handle, u_spawned = False, u_done = False,
      u_exitCode = None, u_signal = None, spawnPromise = Fulfilled, exitPromise = Pending,
      eventEmitter = \<lparr>on_spawn = [], on_error = [ExitPromise_onError],
                      on_exit = [ExitPromise_onExit]\<rparr>\<rparr>"
  by (simp add: Spawned_new_def createSpawnPromise_def createExitPromise_def Let_def
        live_handle_def)

lemma Spawned_new_u_spawned: "\<not> u_spawned (Spawned_new h)"
  by (simp add: Spawned_new_def createSpawnPromise_def createExitPromise_def Let_def)

subsection \<open>What each emit leaves alone\<close>

lemma emit_spawn_on_exit: "on_exit (eventEmitter (emit_spawn t)) = on_exit (eventEmitter t)"
  unfolding emit_spawn_def
  by (rule fold_frame) (case_tac x, simp add: spawnPromise_cleanup_def)

lemma emit_spawn_exitPromise: "exitPromise (emit_spawn t) = exitPromise t"
  unfolding emit_spawn_def
  by (rule fold_frame) (case_tac x, simp add: spawnPromise_cleanup_def)

lemma emit_spawn_u_done: "u_done (emit_spawn t) = u_done t"
  unfolding emit_spawn_def
  by (rule fold_frame) (case_tac x, simp add: spawnPromise_cleanup_def)

lemma emit_spawn_u_exitCode: "u_exitCode (emit_spawn t) = u_exitCode t"
  unfolding emit_spawn_def
  by (rule fold_frame) (case_tac x, simp add: spawnPromise_cleanup_def)

lemma emit_spawn_u_signal: "u_signal (emit_spawn t) = u_signal t"
  unfolding emit_spawn_def
  by (rule fold_frame) (case_tac x, simp add: spawnPromise_cleanup_def)

lemma emit_spawn_u_spawned: "u_spawned (emit_spawn t) = u_spawned t"
  unfolding emit_spawn_def
  by (rule fold_frame) (case_tac x, simp add: spawnPromise_cleanup_def)

lemmas emit_spawn_frame = emit_spawn_on_exit emit_spawn_exitPromise emit_spawn_u_done
  emit_spawn_u_exitCode emit_spawn_u_signal emit_spawn_u_spawned

lemma emit_error_u_done: "u_done (emit_error e t) = u_done t"
  unfolding emit_error_def
  by (rule fold_frame) (case_tac x, simp_all add: spawnPromise_cleanup_def exitPromise_cleanup_def)

lemma emit_error_u_exitCode: "u_exitCode (emit_error e t) = u_exitCode t"
  unfolding emit_error_def
  by (rule fold_frame) (case_tac x, simp_all add: spawnPromise_cleanup_def exitPromise_cleanup_def)

lemma emit_error_u_signal: "u_signal (emit_error e t) = u_signal t"
  unfolding emit_error_def
  by (rule fold_frame) (case_tac x, simp_all add: spawnPromise_cleanup_def exitPromise_cleanup_def)

lemma emit_error_u_spawned: "u_spawned (emit_error e t) = u_spawned t"
  unfolding emit_error_def
  by (rule fold_frame) (case_tac x, simp_all add: spawnPromise_cleanup_def exitPromise_cleanup_def)

lemma emit_exit_spawnPromise: "spawnPromise (emit_exit code signal t) = spawnPromise t"
  unfolding emit_exit_def
  by (rule fold_frame)
     (case_tac x, simp add: exitPromise_cleanup_def Let_def split: option.splits)

lemma emit_exit_u_spawned: "u_spawned (emit_exit code signal t) = u_spawned t"
  unfolding emit_exit_def
  by (rule fold_frame)
     (case_tac x, simp add: exitPromise_cleanup_def Let_def split: option.splits)

lemma emit_exit_u_done: "u_done (emit_exit code signal t) = u_done t"
  unfolding emit_exit_def
  by (rule fold_frame)
     (case_tac x, simp add: exitPromise_cleanup_def Let_def split: option.splits)

lemma emit_exit_u_exitCode: "u_exitCode (emit_exit code signal t) = u_exitCode t"
  unfolding emit_exit_def
  by (rule fold_frame)
     (case_tac x, simp add: exitPromise_cleanup_def Let_def split: option.splits)

lemma emit_exit_u_signal: "u_signal (emit_exit code signal t) = u_signal t"
  unfolding emit_exit_def
  by (rule fold_frame)
     (case_tac x, simp add: exitPromise_cleanup_def Let_def split: option.splits)

subsection \<open>A settled promise stays as it is\<close>

lemma emit_spawn_spawnPromise_settled:
  "spawnPromise t \<noteq> Pending \<Longrightarrow> spawnPromise (emit_spawn t) = spawnPromise t"
  unfolding emit_spawn_def
  by (rule fold_invariant [where P = "\<lambda>s. spawnPromise s = spawnPromise t"])
     (simp, case_tac x, simp add: spawnPromise_cleanup_def resolve_settled)

lemma emit_error_spawnPromise_settled:
  "spawnPromise t \<noteq> Pending \<Longrightarrow> spawnPromise (emit_error e t) = spawnPromise t"
  unfolding emit_error_def
  by (rule fold_invariant [where P = "\<lambda>s. spawnPromise s = spawnPromise t"])
     (simp, case_tac x,
      simp_all add: spawnPromise_cleanup_def exitPromise_cleanup_def reject_settled)

lemma emit_error_exitPromise_settled:
  "exitPromise t \<noteq> Pending \<Longrightarrow> exitPromise (emit_error e t) = exitPromise t"
  unfolding emit_error_def
  by (rule fold_invariant [where P = "\<lambda>s. exitPromise s = exitPromise t"])
     (simp, case_tac x,
      simp_all add: spawnPromise_cleanup_def exitPromise_cleanup_def reject_settled)

lemma emit_exit_exitPromise_settled:
  "exitPromise t \<noteq> Pending \<Longrightarrow> exitPromise (emit_exit code signal t) = exitPromise t"
  unfolding emit_exit_def
  by (rule fold_invariant [where P = "\<lambda>s. exitPromise s = exitPromise t"])
     (simp, case_tac x,
      simp add: exitPromise_cleanup_def reject_settled resolve_settled Let_def
        split: option.splits)

lemma deliver_exitPromise_settled:
  "exitPromise t \<noteq> Pending \<Longrightarrow> exitPromise (deliver n t) = exitPromise t"
  by (cases n)
     (simp_all add: onSpawn_def onError_def onCloseOrExit_def Let_def emit_spawn_exitPromise
        emit_error_exitPromise_settled emit_exit_exitPromise_settled split: option.splits)

lemma deliver_all_exitPromise_settled:
  "exitPromise t \<noteq> Pending \<Longrightarrow> exitPromise (deliver_all ns t) = exitPromise t"
  unfolding deliver_all_def
  by (rule fold_invariant [where P = "\<lambda>s. exitPromise s = exitPromise t"])
     (simp_all add: deliver_exitPromise_settled)

lemma deliver_spawnPromise_settled:
  "spawnPromise t \<noteq> Pending \<Longrightarrow> spawnPromise (deliver n t) = spawnPromise t"
  by (cases n)
     (simp_all add: onSpawn_def onError_def onCloseOrExit_def Let_def emit_exit_spawnPromise
        emit_error_spawnPromise_settled emit_spawn_spawnPromise_settled split: option.splits)

lemma deliver_all_spawnPromise_settled:
  "spawnPromise t \<noteq> Pending \<Longrightarrow> spawnPromise (deliver_all ns t) = spawnPromise t"
  unfolding deliver_all_def
  by (rule fold_invariant [where P = "\<lambda>s. spawnPromise s = spawnPromise t"])
     (simp_all add: deliver_spawnPromise_settled)

subsection \<open>The invariant is established and kept\<close>

lemma tracker_inv_new: "tracker_inv (Spawned_new h)"
  by (simp add: tracker_inv_def Spawned_new_def createSpawnPromise_def createExitPromise_def Let_def)

lemma tracker_inv_onSpawn: "tracker_inv t \<Longrightarrow> tracker_inv (onSpawn t)"
  by (simp add: tracker_inv_def onSpawn_def emit_spawn_frame)

lemma call_error_listener_inv:
  "tracker_inv s \<Longrightarrow>
   tracker_inv (call_error_listener l e
     (s\<lparr>eventEmitter := (eventEmitter s)\<lparr>on_error := removeAll l (on_error (eventEmitter s))\<rparr>\<rparr>))"
  by (cases l; cases "exitPromise s")
     (simp_all add: tracker_inv_def spawnPromise_cleanup_def exitPromise_cleanup_def)

lemma tracker_inv_onError: "tracker_inv t \<Longrightarrow> tracker_inv (onError e t)"
  unfolding onError_def emit_error_def
  by (rule fold_invariant) (simp_all add: call_error_listener_inv)

lemma tracker_inv_onCloseOrExit:
  "tracker_inv t \<Longrightarrow> tracker_inv (onCloseOrExit code signal t)"
  by (cases "exitPromise t")
     (auto simp add: tracker_inv_def onCloseOrExit_def emit_exit_def exitPromise_cleanup_def
        Let_def split: option.splits)

lemma tracker_inv_deliver: "tracker_inv t \<Longrightarrow> tracker_inv (deliver n t)"
  by (cases n) (simp_all add: tracker_inv_onSpawn tracker_inv_onError tracker_inv_onCloseOrExit)

lemma tracker_inv_deliver_all: "tracker_inv t \<Longrightarrow> tracker_inv (deliver_all ns t)"
  unfolding deliver_all_def
  by (rule fold_invariant) (simp_all add: tracker_inv_deliver)

lemma tracker_inv_reachable: "tracker_inv (deliver_all ns (Spawned_new h))"
  by (simp add: tracker_inv_deliver_all tracker_inv_new)

subsection \<open>The termination handler\<close>

lemma onCloseOrExit_pending:
  assumes "tracker_inv t" and "exitPromise t = Pending"
  shows "exitPromise (onCloseOrExit code signal t) =
     (case signal of
        Some s \<Rightarrow> Rejected (KilledWithSignalError s)
      | None \<Rightarrow>
         (case code of
            None \<Rightarrow> Rejected (Error ''Both code and signal are null.'')
          | Some c \<Rightarrow> if c = 0 then Fulfilled else Rejected (ExitedWithExitCodeError c)))"
  using assms
  by (auto simp add: tracker_inv_def onCloseOrExit_def emit_exit_def exitPromise_cleanup_def
        Let_def split: option.splits)

lemma onCloseOrExit_done: "u_done t \<Longrightarrow> onCloseOrExit code signal t = t"
  by (simp add: onCloseOrExit_def)

lemma onCloseOrExit_first:
  assumes "\<not> u_done t"
  shows "u_done (onCloseOrExit code signal t)"
    and "u_exitCode (onCloseOrExit code signal t) =
           (case code of None \<Rightarrow> u_exitCode t | Some c \<Rightarrow> Some c)"
    and "u_signal (onCloseOrExit code signal t) =
           (case signal of None \<Rightarrow> u_signal t
            | Some s \<Rightarrow> if s = [] then u_signal t else Some s)"
    and "u_spawned (onCloseOrExit code signal t) = u_spawned t"
  using assms
  by (simp_all add: onCloseOrExit_def Let_def emit_exit_u_done emit_exit_u_exitCode
        emit_exit_u_signal emit_exit_u_spawned split: option.splits)

lemma deliver_u_spawned:
  "n \<noteq> NSpawn \<Longrightarrow> u_spawned (deliver n t) = u_spawned t"
  by (cases n)
     (simp_all add: onError_def onCloseOrExit_def Let_def emit_error_u_spawned
        emit_exit_u_spawned split: option.splits)

lemma deliver_all_u_spawned:
  "NSpawn \<notin> set ns \<Longrightarrow> u_spawned (deliver_all ns t) = u_spawned t"
proof (induction ns arbitrary: t)
  case Nil
  show ?case
    by (simp add: deliver_all_def)
next
  case (Cons n ns)
  then have n: "n \<noteq> NSpawn" and ns: "NSpawn \<notin> set ns"
    by auto
  have "deliver_all (n # ns) t = deliver_all ns (deliver n t)"
    by (simp add: deliver_all_def)
  then show ?case
    by (simp add: Cons.IH [OF ns] deliver_u_spawned [OF n])
qed

subsection \<open>The coordinator\<close>

lemma spawn_rejects_empty_command:
  assumes "spawned c = None" and "command c = [] \<or> (\<exists>rest. command c = '''' # rest)"
  shows "Spawnable_spawn create (c, calls) = (Inl EmptyCommandError, c, calls)"
  using assms by (auto simp add: Spawnable_spawn_def)

lemma do_step_empty_command:
  assumes "spawned c = None" and "command c = [] \<or> (\<exists>rest. command c = '''' # rest)"
  shows "do_step create st (c, calls) = (c, calls)"
proof (cases st)
  case CallSpawn
  then show ?thesis
    by (simp add: spawn_rejects_empty_command [OF assms])
next
  case (CallKill signal)
  then show ?thesis
    using assms(1) by (simp add: Spawnable_kill_def)
next
  case (Notify n)
  then show ?thesis
    using assms(1) by simp
qed

lemma do_steps_empty_command:
  assumes "spawned c = None" and "command c = [] \<or> (\<exists>rest. command c = '''' # rest)"
  shows "do_steps create steps (c, calls) = (c, calls)"
  unfolding do_steps_def
  by (rule fold_invariant [where P = "\<lambda>s. s = (c, calls)"])
     (simp_all add: do_step_empty_command [OF assms])

lemma do_step_started:
  assumes "spawned (fst s) \<noteq> None"
  shows "spawned (fst (do_step create st s)) \<noteq> None \<and> snd (do_step create st s) = snd s"
proof (cases s)
  case (Pair c calls)
  with assms show ?thesis
    by (cases st) (auto simp add: Spawnable_spawn_def Spawnable_kill_def)
qed

lemma do_steps_started:
  assumes "spawned (fst s) \<noteq> None"
  shows "spawned (fst (do_steps create steps s)) \<noteq> None \<and>
         snd (do_steps create steps s) = snd s"
  unfolding do_steps_def
  by (rule fold_invariant [where P = "\<lambda>s'. spawned (fst s') \<noteq> None \<and> snd s' = snd s"])
     (simp_all add: assms do_step_started)

lemma spawn_reaches_await:
  assumes "Spawnable_spawn create s = (Inr p, s1)"
  shows "spawned (fst s1) \<noteq> None"
  using assms
  by (cases s)
     (auto simp add: Spawnable_spawn_def Let_def split: if_splits list.splits sum.splits)

lemma spawn_started:
  assumes "spawned (fst s) \<noteq> None"
  shows "Spawnable_spawn create s = (Inl AlreadySpawnedError, s)"
  using assms by (cases s) (simp add: Spawnable_spawn_def)

lemma spawn_ls_pending:
  "Spawnable_spawn create_pending (Spawnable_new [''ls'', ''-la''] None, [])
     = (Inr Pending,
        \<lparr>command = [''ls'', ''-la''], options = None,
         spawned = Some (Spawned_new pending_handle)\<rparr>,
        [(''ls'', [''-la''], None)])"
  by (simp add: Spawnable_spawn_def Spawnable_new_def create_pending_def
        Spawned_waitForSpawn_def Spawned_new_pending_handle)

lemma spawn_sleep_pending:
  "Spawnable_spawn create_pending (Spawnable_new [''sleep'', ''1''] None, [])
     = (Inr Pending,
        \<lparr>command = [''sleep'', ''1''], options = None,
         spawned = Some (Spawned_new pending_handle)\<rparr>,
        [(''sleep'', [''1''], None)])"
  by (simp add: Spawnable_spawn_def Spawnable_new_def create_pending_def
        Spawned_waitForSpawn_def Spawned_new_pending_handle)

section \<open>The exit decision\<close>

text \<open>
  Claim C1. A termination notification (\<^verbatim>\<open>close\<close> or \<^verbatim>\<open>exit\<close>, with its code and
  signal) that reaches a tracker whose exit promise is still pending decides
  \<^verbatim>\<open>waitForExit\<close>: it is fulfilled exactly when the signal is null and the code is 0;
  it is rejected with \<^verbatim>\<open>KilledWithSignalError\<close> carrying the signal whenever the signal
  is not null, whatever the code; with \<^verbatim>\<open>ExitedWithExitCodeError\<close> carrying the code
  when the signal is null and the code is not 0; and with the error
  \<^verbatim>\<open>Both code and signal are null.\<close> when both are null.
\<close>

theorem waitForExit_decision:
  assumes "t = deliver_all ns (Spawned_new h)"
      and "Spawned_waitForExit t = Pending"
      and "n = NClose code signal \<or> n = NExit code signal"
  shows "(Spawned_waitForExit (deliver n t) = Fulfilled \<longleftrightarrow> signal = None \<and> code = Some 0) \<and>
         (\<forall>s. signal = Some s \<longrightarrow>
              Spawned_waitForExit (deliver n t) = Rejected (KilledWithSignalError s)) \<and>
         (\<forall>c. signal = None \<and> code = Some c \<and> c \<noteq> 0 \<longrightarrow>
              Spawned_waitForExit (deliver n t) = Rejected (ExitedWithExitCodeError c)) \<and>
         (signal = None \<and> code = None \<longrightarrow>
              Spawned_waitForExit (deliver n t) =
                Rejected (Error ''Both code and signal are null.''))"
proof -
  have inv: "tracker_inv t"
    using assms(1) by (simp add: tracker_inv_reachable)
  have pend: "exitPromise t = Pending"
    using assms(2) by (simp add: Spawned_waitForExit_def)
  have "deliver n t = onCloseOrExit code signal t"
    using assms(3) by auto
  then have "Spawned_waitForExit (deliver n t) =
     (case signal of
        Some s \<Rightarrow> Rejected (KilledWithSignalError s)
      | None \<Rightarrow>
         (case code of
            None \<Rightarrow> Rejected (Error ''Both code and signal are null.'')
          | Some c \<Rightarrow> if c = 0 then Fulfilled else Rejected (ExitedWithExitCodeError c)))"
    by (simp add: Spawned_waitForExit_def onCloseOrExit_pending [OF inv pend])
  then show ?thesis
    by (auto split: option.splits)
qed

theorem waitForExit_decision_witness:
  "Spawned_waitForExit (deliver_all [NSpawn] (Spawned_new pending_handle)) = Pending \<and>
   Spawned_waitForExit
     (deliver (NExit None (Some ''SIGTERM'')) (deliver_all [NSpawn] (Spawned_new pending_handle)))
     = Rejected (KilledWithSignalError ''SIGTERM'') \<and>
   Spawned_waitForExit
     (deliver (NClose (Some 0) None) (deliver_all [NSpawn] (Spawned_new pending_handle)))
     = Fulfilled \<and>
   Spawned_waitForExit
     (deliver (NExit (Some 2) None) (deliver_all [NSpawn] (Spawned_new pending_handle)))
     = Rejected (ExitedWithExitCodeError 2)"
proof -
  have p: "Spawned_waitForExit (deliver_all [NSpawn] (Spawned_new pending_handle)) = Pending"
    by (simp add: Spawned_waitForExit_def deliver_all_def onSpawn_def emit_spawn_def
          Spawned_new_def createSpawnPromise_def createExitPromise_def pending_handle_def
          spawnPromise_cleanup_def Let_def)
  show ?thesis
    using p
      waitForExit_decision [OF refl p, of "NExit None (Some ''SIGTERM'')" None "Some ''SIGTERM''"]
      waitForExit_decision [OF refl p, of "NClose (Some 0) None" "Some 0" None]
      waitForExit_decision [OF refl p, of "NExit (Some 2) None" "Some 2" None]
    by simp
qed

section \<open>Deduplication of close and exit\<close>

text \<open>
  Claim C2. When a tracker that is not yet done receives a \<^verbatim>\<open>close\<close> and an \<^verbatim>\<open>exit\<close>
  notification, in either order, the first sets \<^verbatim>\<open>_done\<close>, records the code and the
  signal (a signal only when it is a non-empty string), leaves \<^verbatim>\<open>_spawned\<close> alone and
  decides the exit promise; the second changes nothing at all: the tracker after it
  is equal to the tracker before it, in every field, the promises and the emitter
  included.
\<close>

theorem close_exit_deduplicated:
  assumes "t = deliver_all ns (Spawned_new h)"
      and "\<not> Spawned_isDone t"
      and "(n1 = NClose code signal \<and> n2 = NExit code' signal') \<or>
           (n1 = NExit code signal \<and> n2 = NClose code' signal')"
  shows "Spawned_isDone (deliver n1 t) \<and>
         Spawned_exitCode (deliver n1 t) = code \<and>
         Spawned_signal (deliver n1 t) = (if signal = Some [] then None else signal) \<and>
         Spawned_hasSpawned (deliver n1 t) = Spawned_hasSpawned t \<and>
         Spawned_waitForExit (deliver n1 t) \<noteq> Pending \<and>
         deliver n2 (deliver n1 t) = deliver n1 t"
proof -
  have inv: "tracker_inv t"
    using assms(1) by (simp add: tracker_inv_reachable)
  have nd: "\<not> u_done t"
    using assms(2) by (simp add: Spawned_isDone_def)
  have fresh: "u_exitCode t = None" "u_signal t = None"
    using inv nd by (simp_all add: tracker_inv_def)
  have d1: "deliver n1 t = onCloseOrExit code signal t"
    using assms(3) by auto
  have d2: "deliver n2 (deliver n1 t) = onCloseOrExit code' signal' (deliver n1 t)"
    using assms(3) by auto
  have done1: "u_done (deliver n1 t)"
    by (simp add: d1 onCloseOrExit_first(1) [OF nd])
  have inv1: "tracker_inv (deliver n1 t)"
    by (simp add: inv tracker_inv_deliver)
  have "Spawned_isDone (deliver n1 t)"
    using done1 by (simp add: Spawned_isDone_def)
  moreover have "Spawned_exitCode (deliver n1 t) = code"
    by (simp add: Spawned_exitCode_def d1 onCloseOrExit_first(2) [OF nd] fresh
          split: option.splits)
  moreover have "Spawned_signal (deliver n1 t) = (if signal = Some [] then None else signal)"
    by (simp add: Spawned_signal_def d1 onCloseOrExit_first(3) [OF nd] fresh
          split: option.splits)
  moreover have "Spawned_hasSpawned (deliver n1 t) = Spawned_hasSpawned t"
    by (simp add: Spawned_hasSpawned_def d1 onCloseOrExit_first(4) [OF nd])
  moreover have "Spawned_waitForExit (deliver n1 t) \<noteq> Pending"
    using inv1 done1 by (simp add: tracker_inv_def Spawned_waitForExit_def)
  moreover have "deliver n2 (deliver n1 t) = deliver n1 t"
    by (simp add: d2 onCloseOrExit_done [OF done1])
  ultimately show ?thesis
    by blast
qed

theorem close_exit_deduplicated_witness:
  "\<not> Spawned_isDone (deliver_all [NSpawn] (Spawned_new pending_handle)) \<and>
   Spawned_isDone (deliver (NExit (Some 3) None) (deliver_all [NSpawn] (Spawned_new pending_handle))) \<and>
   Spawned_exitCode (deliver (NExit (Some 3) None) (deliver_all [NSpawn] (Spawned_new pending_handle)))
     = Some 3 \<and>
   deliver (NClose (Some 3) None)
     (deliver (NExit (Some 3) None) (deliver_all [NSpawn] (Spawned_new pending_handle)))
     = deliver (NExit (Some 3) None) (deliver_all [NSpawn] (Spawned_new pending_handle))"
proof -
  have nd: "\<not> Spawned_isDone (deliver_all [NSpawn] (Spawned_new pending_handle))"
    by (simp add: Spawned_isDone_def deliver_all_def onSpawn_def emit_spawn_u_done
          Spawned_new_def createSpawnPromise_def createExitPromise_def Let_def)
  show ?thesis
    using nd
      close_exit_deduplicated [OF refl nd, of "NExit (Some 3) None" "Some 3" None
        "NClose (Some 3) None" "Some 3" None]
    by simp
qed

section \<open>The outcome queries\<close>

text \<open>
  Claim C3. The claim is that \<^verbatim>\<open>hasExitedWithError\<close> is true exactly for a terminated
  process with no signal and a non-zero code, and that neither outcome query is true
  before termination. The code computes \<^verbatim>\<open>!this.wasKilled() && this._exitCode !== 0\<close>,
  and \<^verbatim>\<open>undefined !== 0\<close> holds: on a tracker just constructed, and on a coordinator
  whose \<^verbatim>\<open>spawn()\<close> has just created its tracker, \<^verbatim>\<open>hasExitedWithError()\<close> is true
  while \<^verbatim>\<open>isDone()\<close> is false.
\<close>

theorem hasExitedWithError_true_before_exit:
  "Spawned_hasExitedWithError (Spawned_new pending_handle) \<and>
   \<not> Spawned_isDone (Spawned_new pending_handle) \<and>
   Spawnable_hasExitedWithError
     (fst (snd (Spawnable_spawn create_pending (Spawnable_new [''sleep'', ''1''] None, [])))) \<and>
   \<not> Spawnable_isDone
     (fst (snd (Spawnable_spawn create_pending (Spawnable_new [''sleep'', ''1''] None, []))))"
  by (simp add: spawn_sleep_pending Spawnable_hasExitedWithError_def Spawnable_isDone_def)
     (simp add: Spawned_new_pending_handle Spawned_hasExitedWithError_def Spawned_isDone_def
        Spawned_wasKilled_def)

text \<open>
  What the two queries do compute: \<^verbatim>\<open>hasExitedSuccessfully\<close> is as claimed on every
  tracker that can arise, and \<^verbatim>\<open>hasExitedWithError\<close> is true exactly when no signal is
  recorded and the recorded code is not 0, a missing code included.
\<close>

lemma hasExitedSuccessfully_iff:
  assumes "t = deliver_all ns (Spawned_new h)"
  shows "Spawned_hasExitedSuccessfully t \<longleftrightarrow>
           Spawned_isDone t \<and> Spawned_signal t = None \<and> Spawned_exitCode t = Some 0"
proof -
  have "tracker_inv t"
    using assms by (simp add: tracker_inv_reachable)
  then show ?thesis
    by (auto simp add: tracker_inv_def Spawned_hasExitedSuccessfully_def Spawned_isDone_def
          Spawned_signal_def Spawned_exitCode_def Spawned_wasKilled_def)
qed

lemma hasExitedWithError_iff:
  "Spawned_hasExitedWithError t \<longleftrightarrow>
     Spawned_signal t = None \<and> Spawned_exitCode t \<noteq> Some 0"
  by (simp add: Spawned_hasExitedWithError_def Spawned_wasKilled_def Spawned_signal_def
        Spawned_exitCode_def)

text \<open>
  Claim C10. In every tracker state, reachable or not, \<^verbatim>\<open>hasExitedSuccessfully()\<close> and
  \<^verbatim>\<open>hasExitedWithError()\<close> are never both true, and when \<^verbatim>\<open>wasKilled()\<close> is true both
  are false.
\<close>

theorem outcome_queries_exclusive:
  "\<not> (Spawned_hasExitedSuccessfully t \<and> Spawned_hasExitedWithError t) \<and>
   (Spawned_wasKilled t \<longrightarrow>
      \<not> Spawned_hasExitedSuccessfully t \<and> \<not> Spawned_hasExitedWithError t)"
  by (simp add: Spawned_hasExitedSuccessfully_def Spawned_hasExitedWithError_def)

theorem outcome_queries_exclusive_witness:
  "Spawned_wasKilled (deliver (NExit None (Some ''SIGKILL'')) (Spawned_new pending_handle)) \<and>
   \<not> Spawned_hasExitedSuccessfully
       (deliver (NExit None (Some ''SIGKILL'')) (Spawned_new pending_handle)) \<and>
   \<not> Spawned_hasExitedWithError
       (deliver (NExit None (Some ''SIGKILL'')) (Spawned_new pending_handle))"
proof -
  have k: "Spawned_wasKilled
      (deliver (NExit None (Some ''SIGKILL'')) (Spawned_new pending_handle))"
    by (simp add: tracker_eval)
  show ?thesis
    using k
      outcome_queries_exclusive
        [of "deliver (NExit None (Some ''SIGKILL'')) (Spawned_new pending_handle)"]
    by blast
qed

section \<open>The two promises\<close>

text \<open>
  Claim C6. A tracker constructed from a handle whose \<^verbatim>\<open>pid\<close> is defined has a
  fulfilled \<^verbatim>\<open>waitForSpawn\<close> promise as soon as it is constructed, before any
  notification; and no later notification changes that.
\<close>

theorem waitForSpawn_resolved_at_construction:
  assumes "pid h \<noteq> None"
  shows "Spawned_waitForSpawn (Spawned_new h) = Fulfilled \<and>
         Spawned_waitForSpawn (deliver_all ns (Spawned_new h)) = Fulfilled"
proof -
  have f: "spawnPromise (Spawned_new h) = Fulfilled"
    using assms by (simp add: Spawned_new_def createSpawnPromise_def createExitPromise_def Let_def)
  then have "spawnPromise (deliver_all ns (Spawned_new h)) = spawnPromise (Spawned_new h)"
    by (simp add: deliver_all_spawnPromise_settled)
  with f show ?thesis
    by (simp add: Spawned_waitForSpawn_def)
qed

theorem waitForSpawn_resolved_at_construction_witness:
  "pid live_handle \<noteq> None \<and>
   Spawned_waitForSpawn (Spawned_new live_handle) = Fulfilled \<and>
   Spawned_waitForSpawn (deliver_all [NError (Error ''EIO'')] (Spawned_new live_handle))
     = Fulfilled"
proof -
  have p: "pid live_handle \<noteq> None"
    by (simp add: live_handle_def)
  show ?thesis
    using p waitForSpawn_resolved_at_construction [OF p, of "[NError (Error ''EIO'')]"]
    by simp
qed

text \<open>
  Claim C7. \<^verbatim>\<open>waitForExit\<close> returns the promise made in the constructor. In every
  tracker that can arise, once that promise is decided no later notification changes
  it, so a call made at any later time observes the same outcome; and a tracker that
  is done has a decided promise, so a call made after termination does not hang.
\<close>

theorem waitForExit_memoized:
  assumes "t = deliver_all ns (Spawned_new h)"
  shows "(Spawned_isDone t \<longrightarrow> Spawned_waitForExit t \<noteq> Pending) \<and>
         (Spawned_waitForExit t \<noteq> Pending \<longrightarrow>
            Spawned_waitForExit (deliver_all ns' t) = Spawned_waitForExit t)"
proof -
  have "tracker_inv t"
    using assms by (simp add: tracker_inv_reachable)
  then have "Spawned_isDone t \<longrightarrow> Spawned_waitForExit t \<noteq> Pending"
    by (simp add: tracker_inv_def Spawned_isDone_def Spawned_waitForExit_def)
  moreover have "Spawned_waitForExit t \<noteq> Pending \<longrightarrow>
      Spawned_waitForExit (deliver_all ns' t) = Spawned_waitForExit t"
    by (simp add: Spawned_waitForExit_def deliver_all_exitPromise_settled)
  ultimately show ?thesis
    by blast
qed

theorem waitForExit_memoized_witness:
  "Spawned_isDone (deliver_all [NSpawn, NExit (Some 1) None] (Spawned_new pending_handle)) \<and>
   Spawned_waitForExit (deliver_all [NSpawn, NExit (Some 1) None] (Spawned_new pending_handle))
     = Rejected (ExitedWithExitCodeError 1) \<and>
   Spawned_waitForExit
     (deliver_all [NClose (Some 0) None, NError (Error ''late''), NSpawn]
        (deliver_all [NSpawn, NExit (Some 1) None] (Spawned_new pending_handle)))
     = Rejected (ExitedWithExitCodeError 1)"
proof -
  have d: "Spawned_isDone
      (deliver_all [NSpawn, NExit (Some 1) None] (Spawned_new pending_handle))"
    by (simp add: tracker_eval)
  have r: "Spawned_waitForExit
      (deliver_all [NSpawn, NExit (Some 1) None] (Spawned_new pending_handle))
      = Rejected (ExitedWithExitCodeError 1)"
    by (simp add: tracker_eval)
  show ?thesis
    using d r
      waitForExit_memoized [OF refl, of "[NSpawn, NExit (Some 1) None]" pending_handle
        "[NClose (Some 0) None, NError (Error ''late''), NSpawn]"]
    by simp
qed

text \<open>
  Claim C9. A fulfilled \<^verbatim>\<open>waitForSpawn\<close> does not imply \<^verbatim>\<open>hasSpawned()\<close>. For a handle
  whose \<^verbatim>\<open>pid\<close> is defined, as long as no \<^verbatim>\<open>spawn\<close> notification has been delivered,
  \<^verbatim>\<open>waitForSpawn\<close> is fulfilled and \<^verbatim>\<open>hasSpawned()\<close> is false; and \<^verbatim>\<open>spawn()\<close> of a
  coordinator whose primitive returns such a handle awaits a fulfilled promise while
  the coordinator's \<^verbatim>\<open>hasSpawned()\<close> is false.
\<close>

theorem resolved_but_not_hasSpawned:
  assumes "pid h \<noteq> None"
      and "spawned c = None"
      and "command c = first # rest"
      and "first \<noteq> ''''"
      and "create calls first rest (options c) = Inr h"
      and "NSpawn \<notin> set ns"
  shows "Spawned_waitForSpawn (deliver_all ns (Spawned_new h)) = Fulfilled \<and>
         \<not> Spawned_hasSpawned (deliver_all ns (Spawned_new h)) \<and>
         fst (Spawnable_spawn create (c, calls)) = Inr Fulfilled \<and>
         spawned (fst (snd (Spawnable_spawn create (c, calls)))) = Some (Spawned_new h) \<and>
         \<not> Spawnable_hasSpawned (fst (snd (Spawnable_spawn create (c, calls))))"
proof -
  have f: "spawnPromise (Spawned_new h) = Fulfilled"
    using assms(1)
    by (simp add: Spawned_new_def createSpawnPromise_def createExitPromise_def Let_def)
  have n: "\<not> u_spawned (Spawned_new h)"
    by (rule Spawned_new_u_spawned)
  have "spawnPromise (deliver_all ns (Spawned_new h)) = Fulfilled"
    using f by (simp add: deliver_all_spawnPromise_settled)
  moreover have "\<not> u_spawned (deliver_all ns (Spawned_new h))"
    using n assms(6) by (simp add: deliver_all_u_spawned)
  moreover have "Spawnable_spawn create (c, calls) =
      (Inr Fulfilled, c\<lparr>spawned := Some (Spawned_new h)\<rparr>, calls @ [(first, rest, options c)])"
    using assms(2-5) f by (simp add: Spawnable_spawn_def Spawned_waitForSpawn_def Let_def)
  ultimately show ?thesis
    using n
    by (simp add: Spawned_waitForSpawn_def Spawned_hasSpawned_def Spawnable_hasSpawned_def)
qed

theorem resolved_but_not_hasSpawned_witness:
  "Spawned_waitForSpawn (Spawned_new live_handle) = Fulfilled \<and>
   \<not> Spawned_hasSpawned (Spawned_new live_handle) \<and>
   fst (Spawnable_spawn create_live (Spawnable_new [''ls''] None, [])) = Inr Fulfilled \<and>
   \<not> Spawnable_hasSpawned
       (fst (snd (Spawnable_spawn create_live (Spawnable_new [''ls''] None, []))))"
proof -
  have a: "pid live_handle \<noteq> None"
    by (simp add: live_handle_def)
  have b: "spawned (Spawnable_new [''ls''] None :: unit Spawnable) = None"
    by (simp add: Spawnable_new_def)
  have c: "command (Spawnable_new [''ls''] None :: unit Spawnable) = ''ls'' # []"
    by (simp add: Spawnable_new_def)
  have d: "''ls'' \<noteq> ''''"
    by simp
  have e: "create_live [] ''ls'' [] (options (Spawnable_new [''ls''] None)) = Inr live_handle"
    by (simp add: create_live_def)
  have f: "NSpawn \<notin> set []"
    by simp
  show ?thesis
    using resolved_but_not_hasSpawned
      [where h = live_handle and c = "Spawnable_new [''ls''] None" and first = "''ls''"
         and rest = "[]" and create = create_live and calls = "[]" and ns = "[]",
       OF a b c d e f]
    by (simp add: deliver_all_def)
qed

section \<open>The coordinator's guards\<close>

text \<open>
  Claim C4. A coordinator constructed with an empty command, or with a command whose
  first element is the empty string, stays as constructed whatever is done to it;
  in every such state \<^verbatim>\<open>spawn()\<close> fails with \<^verbatim>\<open>EmptyCommandError\<close>, leaves the
  coordinator without a tracker, and the creation primitive is not called: the log
  of its calls is the one the coordinator started with.
\<close>

theorem spawn_empty_command:
  assumes "cmd = [] \<or> (\<exists>rest. cmd = '''' # rest)"
      and "s = do_steps create steps (Spawnable_new cmd opts, calls0)"
  shows "Spawnable_spawn create s = (Inl EmptyCommandError, s) \<and>
         spawned (fst s) = None \<and> snd s = calls0"
proof -
  have u: "spawned (Spawnable_new cmd opts) = None"
    by (simp add: Spawnable_new_def)
  have e: "command (Spawnable_new cmd opts) = [] \<or>
           (\<exists>rest. command (Spawnable_new cmd opts) = '''' # rest)"
    using assms(1) by (simp add: Spawnable_new_def)
  have "s = (Spawnable_new cmd opts, calls0)"
    using assms(2) by (simp add: do_steps_empty_command [OF u e])
  then show ?thesis
    by (simp add: spawn_rejects_empty_command [OF u e] u)
qed

theorem spawn_empty_command_witness:
  "Spawnable_spawn create_live (do_steps create_live [] (Spawnable_new [] None, []))
     = (Inl EmptyCommandError, do_steps create_live [] (Spawnable_new [] None, [])) \<and>
   Spawnable_spawn create_live
     (do_steps create_live [CallSpawn, CallKill None] (Spawnable_new ['''', ''-la''] None, []))
     = (Inl EmptyCommandError,
        do_steps create_live [CallSpawn, CallKill None] (Spawnable_new ['''', ''-la''] None, [])) \<and>
   snd (do_steps create_live [CallSpawn, CallKill None] (Spawnable_new ['''', ''-la''] None, []))
     = []"
proof -
  have a: "([]::string list) = [] \<or> (\<exists>rest. ([]::string list) = '''' # rest)"
    by simp
  have b: "['''', ''-la''] = [] \<or> (\<exists>rest. ['''', ''-la''] = '''' # rest)"
    by simp
  show ?thesis
    using spawn_empty_command [OF a refl, where create = create_live and steps = "[]"
          and opts = None and ?calls0.0 = "[]"]
      spawn_empty_command [OF b refl, where create = create_live
          and steps = "[CallSpawn, CallKill None]" and opts = None and ?calls0.0 = "[]"]
    by simp
qed

text \<open>
  Claim C5, as amended. Once a call of \<^verbatim>\<open>spawn()\<close> has reached its \<^verbatim>\<open>await\<close> (the
  command passed the check and the primitive returned a handle), every later call of
  \<^verbatim>\<open>spawn()\<close> fails with \<^verbatim>\<open>AlreadySpawnedError\<close> and changes nothing, whatever
  notifications and calls came in between, so whether or not the first call's
  promise has settled; the primitive is not called again.
\<close>

theorem spawn_twice:
  assumes "Spawnable_spawn create s = (Inr p, s1)"
      and "s2 = do_steps create steps s1"
  shows "Spawnable_spawn create s2 = (Inl AlreadySpawnedError, s2) \<and> snd s2 = snd s1"
proof -
  have "spawned (fst s1) \<noteq> None"
    using spawn_reaches_await [OF assms(1)] .
  from do_steps_started [OF this, of create steps]
  show ?thesis
    by (simp add: assms(2) spawn_started)
qed

theorem spawn_twice_witness:
  "fst (Spawnable_spawn create_pending (Spawnable_new [''ls'', ''-la''] None, [])) = Inr Pending \<and>
   fst (Spawnable_spawn create_pending
          (do_steps create_pending [Notify NSpawn]
             (snd (Spawnable_spawn create_pending (Spawnable_new [''ls'', ''-la''] None, [])))))
     = Inl AlreadySpawnedError \<and>
   snd (do_steps create_pending [Notify NSpawn]
          (snd (Spawnable_spawn create_pending (Spawnable_new [''ls'', ''-la''] None, []))))
     = [(''ls'', [''-la''], None)]"
proof -
  have s: "Spawnable_spawn create_pending (Spawnable_new [''ls'', ''-la''] None, [])
      = (Inr Pending,
         snd (Spawnable_spawn create_pending (Spawnable_new [''ls'', ''-la''] None, [])))"
    by (simp add: spawn_ls_pending)
  show ?thesis
    using spawn_twice [OF s refl, of "[Notify NSpawn]"]
    by (simp add: spawn_ls_pending)
qed

text \<open>
  The claim as it was stated, for every coordinator, fails: on a coordinator with an
  empty command the first call fails with \<^verbatim>\<open>EmptyCommandError\<close>, no tracker is
  stored, and the second call fails with \<^verbatim>\<open>EmptyCommandError\<close> again.
\<close>

theorem spawn_twice_counterexample:
  "fst (Spawnable_spawn create_live
          (snd (Spawnable_spawn create_live (Spawnable_new [] None, []))))
     = Inl EmptyCommandError \<and>
   fst (Spawnable_spawn create_live
          (snd (Spawnable_spawn create_live (Spawnable_new [] None, []))))
     \<noteq> Inl AlreadySpawnedError"
  by (simp add: Spawnable_spawn_def Spawnable_new_def)

text \<open>
  Claim C8. On a coordinator without a tracker every query gives its default
  (\<^verbatim>\<open>false\<close> or \<^verbatim>\<open>undefined\<close>), and \<^verbatim>\<open>kill\<close>, \<^verbatim>\<open>waitForSpawn\<close> and \<^verbatim>\<open>waitForExit\<close>
  fail with \<^verbatim>\<open>NotYetSpawnedError\<close>.
\<close>

theorem unstarted_coordinator:
  assumes "spawned c = None"
  shows "\<not> Spawnable_hasSpawned c \<and> \<not> Spawnable_isDone c \<and> \<not> Spawnable_wasKilled c \<and>
         \<not> Spawnable_hasExitedSuccessfully c \<and> \<not> Spawnable_hasExitedWithError c \<and>
         Spawnable_signal c = None \<and> Spawnable_exitCode c = None \<and>
         Spawnable_childProcess c = None \<and>
         Spawnable_kill signal c = Inl NotYetSpawnedError \<and>
         Spawnable_waitForSpawn c = Inl NotYetSpawnedError \<and>
         Spawnable_waitForExit c = Inl NotYetSpawnedError"
  using assms
  by (simp add: Spawnable_hasSpawned_def Spawnable_isDone_def Spawnable_wasKilled_def
        Spawnable_hasExitedSuccessfully_def Spawnable_hasExitedWithError_def
        Spawnable_signal_def Spawnable_exitCode_def Spawnable_childProcess_def
        Spawnable_kill_def Spawnable_waitForSpawn_def Spawnable_waitForExit_def)

theorem unstarted_coordinator_witness:
  "spawned (Spawnable_new [''ls''] (Some ())) = None \<and>
   \<not> Spawnable_hasExitedWithError (Spawnable_new [''ls''] (Some ())) \<and>
   Spawnable_exitCode (Spawnable_new [''ls''] (Some ())) = None \<and>
   Spawnable_kill (Some ''SIGTERM'') (Spawnable_new [''ls''] (Some ())) = Inl NotYetSpawnedError \<and>
   Spawnable_waitForExit (Spawnable_new [''ls''] (Some ())) = Inl NotYetSpawnedError"
proof -
  have u: "spawned (Spawnable_new [''ls''] (Some ())) = None"
    by (simp add: Spawnable_new_def)
  show ?thesis
    using u unstarted_coordinator [OF u, of "Some ''SIGTERM''"]
    by simp
qed

end
